theory Spec2Isabelle
  imports Main
begin

section \<open>Data model\<close>

text \<open>
  The DTO that travels through the handler chains. The handlers and the mapper of the
  repository read the fields \<open>id\<close>, \<open>name\<close> and \<open>infoport\<close>; the documented DTO also
  carries \<open>description\<close>, \<open>status\<close> and the two timestamps. Every field of a JavaScript
  object may be \<open>undefined\<close>, hence the options.
\<close>

record DataProductDto =
  dto_id :: "string option"
  dto_name :: "string option"
  dto_infoport :: "string option"
  dto_description :: "string option"
  dto_status :: "string option"
  dto_createdAt :: "nat option"
  dto_updatedAt :: "nat option"

text \<open>The entity of the mapper: \<open>new DataProduct(id, name, infoport)\<close>.\<close>

record DataProduct =
  ent_id :: string
  ent_name :: "string option"
  ent_infoport :: "string option"

text \<open>
  Exceptions are values. \<open>Error m\<close> is \<open>throw new Error(m)\<close>; \<open>TypeError m\<close> is the
  runtime's error on reading a property of \<open>null\<close>. A computation either returns, raises,
  or has not returned when its fuel ran out (\<open>Timeout\<close>).
\<close>

datatype error = Error string | TypeError string

datatype 'a result = Ok 'a | Raised error | Timeout

text \<open>JavaScript's \<open>!s\<close> on an optional string: \<open>undefined\<close> and the empty string are falsy.\<close>

definition falsy :: "string option \<Rightarrow> bool" where
  "falsy s = (s = None \<or> s = Some [])"

section \<open>Mapper\<close>

text \<open>
  \<open>toDomain(dto) = new DataProduct(dto.id ?? '', dto.name, dto.infoport)\<close> and
  \<open>toDto(entity) = {id, name, infoport}\<close>.
\<close>

definition toDomain :: "DataProductDto \<Rightarrow> DataProduct" where
  "toDomain dto =
     \<lparr>ent_id = (case dto_id dto of None \<Rightarrow> [] | Some i \<Rightarrow> i),
      ent_name = dto_name dto,
      ent_infoport = dto_infoport dto\<rparr>"

definition toDto :: "DataProduct \<Rightarrow> DataProductDto" where
  "toDto entity =
     \<lparr>dto_id = Some (ent_id entity),
      dto_name = ent_name entity,
      dto_infoport = ent_infoport entity,
      dto_description = None,
      dto_status = None,
      dto_createdAt = None,
      dto_updatedAt = None\<rparr>"

text \<open>
  Modelled from the spec: \<open>DataProductMapper.toEntity\<close>, which the repository calls, is not
  among the sources; it is the DTO-to-entity direction of the mapper, taken to be
  \<open>toDomain\<close>.
\<close>

definition toEntity :: "DataProductDto \<Rightarrow> DataProduct" where
  "toEntity dto = toDomain dto"

section \<open>The document collection behind the repository\<close>

text \<open>
  Modelled from the spec: \<open>DataProductModel\<close>, the document model the repository calls, is
  not among the sources. It is a finite map from identifiers to entities.
  \<open>findByIdAndUpdate\<close> with \<open>new: true\<close> overwrites the fields present in the update of
  the stored document and yields the updated document, or yields \<open>null\<close> and changes
  nothing when no document has the identifier; \<open>findByIdAndDelete\<close> removes the document
  if there is one.
\<close>

type_synonym collection = "string \<rightharpoonup> DataProduct"

definition findById :: "string \<Rightarrow> collection \<Rightarrow> DataProduct option" where
  "findById i m = m i"

definition findByIdAndUpdate ::
  "string option \<Rightarrow> DataProduct \<Rightarrow> collection \<Rightarrow> DataProduct option \<times> collection" where
  "findByIdAndUpdate i upd m =
     (case i of
        None \<Rightarrow> (None, m)
      | Some k \<Rightarrow>
          (case m k of
             None \<Rightarrow> (None, m)
           | Some old \<Rightarrow>
               (let new = \<lparr>ent_id = k,
                           ent_name = (case ent_name upd of None \<Rightarrow> ent_name old
                                       | Some x \<Rightarrow> Some x),
                           ent_infoport = (case ent_infoport upd of None \<Rightarrow> ent_infoport old
                                           | Some x \<Rightarrow> Some x)\<rparr>
                in (Some new, m(k \<mapsto> new)))))"

definition findByIdAndDelete :: "string \<Rightarrow> collection \<Rightarrow> collection" where
  "findByIdAndDelete i m = m(i := None)"

section \<open>Repository\<close>

text \<open>
  \<open>DataProductRepository\<close>: \<open>findById\<close> and \<open>update\<close> map the document to a DTO when there
  is one and resolve with \<open>null\<close> otherwise; \<open>delete\<close> awaits the removal and resolves.
  None of the three raises. Its \<open>create\<close> is left out: no handler and no strategy of the
  sources calls it.
\<close>

type_synonym repo_update =
  "string option \<Rightarrow> DataProductDto \<Rightarrow> collection \<Rightarrow> DataProductDto option result \<times> collection"

definition DataProductRepository_findById ::
  "string \<Rightarrow> collection \<Rightarrow> DataProductDto option result \<times> collection" where
  "DataProductRepository_findById i m =
     (case findById i m of
        Some entity \<Rightarrow> (Ok (Some (toDto entity)), m)
      | None \<Rightarrow> (Ok None, m))"

definition DataProductRepository_update :: repo_update where
  "DataProductRepository_update i dto m =
     (case findByIdAndUpdate i (toEntity dto) m of
        (Some entity, m') \<Rightarrow> (Ok (Some (toDto entity)), m')
      | (None, m') \<Rightarrow> (Ok None, m'))"

definition DataProductRepository_delete :: "string \<Rightarrow> collection \<Rightarrow> unit result \<times> collection" where
  "DataProductRepository_delete i m = (Ok (), findByIdAndDelete i m)"

section \<open>The base handler\<close>

text \<open>
  A handler object has one mutable field, \<open>next\<close>. The fields of all handlers are the map
  \<open>nexts\<close>; \<open>setNext\<close> writes the field of \<open>this\<close> and returns its argument.
\<close>

definition setNext :: "'h \<Rightarrow> 'h \<Rightarrow> ('h \<Rightarrow> 'h option) \<Rightarrow> 'h \<times> ('h \<Rightarrow> 'h option)" where
  "setNext this handler nexts = (handler, nexts(this \<mapsto> handler))"

text \<open>
  \<open>handle\<close> awaits \<open>this.process(request)\<close> and then, when \<open>this.next\<close> is set, awaits
  \<open>this.next.handle(request)\<close>. An error of \<open>process\<close> is not caught. A \<open>process\<close> may call
  the inherited \<open>handle\<close> of its own object, so it receives that function as its first
  argument, and the recursion runs on fuel.

  The state is a pair: the world the handlers act on, and the invocation log, the list
  of the handlers whose \<open>process\<close> has been entered, in order. The log is what a recording
  test double observes; \<open>handle\<close> appends to it on entering \<open>process\<close>.
\<close>

type_synonym ('c, 'w, 'h) action = "'c \<Rightarrow> 'w \<times> 'h list \<Rightarrow> unit result \<times> ('w \<times> 'h list)"

primrec handle ::
  "nat \<Rightarrow> (('c, 'w, 'h) action \<Rightarrow> 'h \<Rightarrow> ('c, 'w, 'h) action) \<Rightarrow> ('h \<Rightarrow> 'h option) \<Rightarrow> 'h
     \<Rightarrow> ('c, 'w, 'h) action" where
  "handle 0 process nexts this request s = (Timeout, s)"
| "handle (Suc n) process nexts this request s =
     (case process (handle n process nexts this) this request (fst s, snd s @ [this]) of
        (Ok u, s') \<Rightarrow>
          (case nexts this of
             None \<Rightarrow> (Ok (), s')
           | Some nxt \<Rightarrow> handle n process nexts nxt request s')
      | (Raised e, s') \<Rightarrow> (Raised e, s')
      | (Timeout, s') \<Rightarrow> (Timeout, s'))"

text \<open>A \<open>process\<close> that acts on the world only: it neither reads the log nor calls \<open>handle\<close>.\<close>

definition in_world ::
  "('c \<Rightarrow> 'w \<Rightarrow> unit result \<times> 'w) \<Rightarrow> ('c, 'w, 'h) action" where
  "in_world p request s = (case p request (fst s) of (r, w') \<Rightarrow> (r, (w', snd s)))"

definition simple ::
  "('h \<Rightarrow> 'c \<Rightarrow> 'w \<Rightarrow> unit result \<times> 'w) \<Rightarrow> ('c, 'w, 'h) action \<Rightarrow> 'h \<Rightarrow> ('c, 'w, 'h) action" where
  "simple p self this = in_world (p this)"

section \<open>Concrete handlers\<close>

text \<open>The world of the concrete handlers: the document collection and the console.\<close>

record world =
  model :: collection
  console :: "(string \<times> DataProductDto option) list"

datatype handler =
    ValidateCreateHandler
  | BusinessCreateHandler
  | AuditCreateHandler
  | ValidateUpdateHandler
  | BusinessUpdateHandler
  | AuditUpdateHandler
  | MessageUpdateHandler
  | BusinessUpdateHandlerV2

text \<open>
  The request is a DTO or \<open>null\<close>: the v2 business handler passes on what the repository
  resolved with. Reading a property of \<open>null\<close> raises a \<open>TypeError\<close>.
\<close>

definition ValidateUpdateHandler_process ::
  "DataProductDto option \<Rightarrow> world \<Rightarrow> unit result \<times> world" where
  "ValidateUpdateHandler_process request w =
     (case request of
        None \<Rightarrow> (Raised (TypeError ''Cannot read properties of null''), w)
      | Some r \<Rightarrow>
          (if falsy (dto_name r) \<or> falsy (dto_infoport r)
           then (Raised (Error ''Validation failed''), w)
           else (Ok (), w)))"

definition AuditCreateHandler_process ::
  "DataProductDto option \<Rightarrow> world \<Rightarrow> unit result \<times> world" where
  "AuditCreateHandler_process request w =
     (Ok (), w\<lparr>console := console w @ [(''Audit log:'', request)]\<rparr>)"

definition BusinessCreateHandler_process ::
  "DataProductDto option \<Rightarrow> world \<Rightarrow> unit result \<times> world" where
  "BusinessCreateHandler_process request w = (Ok (), w)"

definition MessageUpdateHandler_process ::
  "DataProductDto option \<Rightarrow> world \<Rightarrow> unit result \<times> world" where
  "MessageUpdateHandler_process request w =
     (Ok (), w\<lparr>console := console w @ [(''Message published:'', request)]\<rparr>)"

text \<open>
  \<open>BusinessUpdateHandlerV2.process\<close>: \<open>updated = await this.repo.update(dto.id, dto)\<close>,
  then \<open>return super.handle(updated)\<close>. The repository is injected, so its \<open>update\<close> is an
  argument; \<open>self\<close> is the inherited \<open>handle\<close> of this very object.
\<close>

definition BusinessUpdateHandlerV2_process ::
  "repo_update \<Rightarrow> (DataProductDto option, world, handler) action
     \<Rightarrow> (DataProductDto option, world, handler) action" where
  "BusinessUpdateHandlerV2_process repo_update self request s =
     (case request of
        None \<Rightarrow> (Raised (TypeError ''Cannot read properties of null''), s)
      | Some dto \<Rightarrow>
          (case repo_update (dto_id dto) dto (model (fst s)) of
             (Ok updated, m') \<Rightarrow> self updated ((fst s)\<lparr>model := m'\<rparr>, snd s)
           | (Raised e, m') \<Rightarrow> (Raised e, ((fst s)\<lparr>model := m'\<rparr>, snd s))
           | (Timeout, m') \<Rightarrow> (Timeout, ((fst s)\<lparr>model := m'\<rparr>, snd s))))"

subsection \<open>Handlers whose files are not among the sources\<close>

text \<open>
  Modelled from the spec: \<open>ValidateCreateHandler\<close> (handlers/create/validation.handler) is
  missing. Validate-Create enforces the minimum name length after trimming, raises a
  validation error and does not touch the repository.
\<close>

definition trim :: "string \<Rightarrow> string" where
  "trim s = rev (dropWhile (\<lambda>c. c = CHR '' '') (rev (dropWhile (\<lambda>c. c = CHR '' '') s)))"

definition ValidateCreateHandler_process ::
  "DataProductDto option \<Rightarrow> world \<Rightarrow> unit result \<times> world" where
  "ValidateCreateHandler_process request w =
     (case request of
        None \<Rightarrow> (Raised (TypeError ''Cannot read properties of null''), w)
      | Some r \<Rightarrow>
          (case dto_name r of
             None \<Rightarrow> (Raised (Error ''Validation failed''), w)
           | Some n \<Rightarrow>
               (if length (trim n) < 3 then (Raised (Error ''Validation failed''), w)
                else (Ok (), w))))"

text \<open>
  Modelled from the spec: \<open>BusinessUpdateHandler\<close> (handlers/update/businesslogic.handler)
  is missing. Business-Update (v1) persists the update as a direct overwrite through the
  repository's \<open>update\<close> and does nothing with what it resolves to.
\<close>

definition BusinessUpdateHandler_process ::
  "repo_update \<Rightarrow> DataProductDto option \<Rightarrow> world \<Rightarrow> unit result \<times> world" where
  "BusinessUpdateHandler_process repo_update request w =
     (case request of
        None \<Rightarrow> (Raised (TypeError ''Cannot read properties of null''), w)
      | Some dto \<Rightarrow>
          (case repo_update (dto_id dto) dto (model w) of
             (Ok updated, m') \<Rightarrow> (Ok (), w\<lparr>model := m'\<rparr>)
           | (Raised e, m') \<Rightarrow> (Raised e, w\<lparr>model := m'\<rparr>)
           | (Timeout, m') \<Rightarrow> (Timeout, w\<lparr>model := m'\<rparr>)))"

text \<open>
  Modelled from the spec: \<open>AuditUpdateHandler\<close> (handlers/update/audit.handler) is missing.
  Audit-Update records an audit entry describing the payload, as its sibling for create
  does.
\<close>

definition AuditUpdateHandler_process ::
  "DataProductDto option \<Rightarrow> world \<Rightarrow> unit result \<times> world" where
  "AuditUpdateHandler_process request w =
     (Ok (), w\<lparr>console := console w @ [(''Audit log:'', request)]\<rparr>)"

subsection \<open>Dispatch of \<open>process\<close> on the class of the handler\<close>

definition process ::
  "repo_update \<Rightarrow> (DataProductDto option, world, handler) action \<Rightarrow> handler
     \<Rightarrow> (DataProductDto option, world, handler) action" where
  "process repo_update self this =
     (case this of
        ValidateCreateHandler \<Rightarrow> in_world ValidateCreateHandler_process
      | BusinessCreateHandler \<Rightarrow> in_world BusinessCreateHandler_process
      | AuditCreateHandler \<Rightarrow> in_world AuditCreateHandler_process
      | ValidateUpdateHandler \<Rightarrow> in_world ValidateUpdateHandler_process
      | BusinessUpdateHandler \<Rightarrow> in_world (BusinessUpdateHandler_process repo_update)
      | AuditUpdateHandler \<Rightarrow> in_world AuditUpdateHandler_process
      | MessageUpdateHandler \<Rightarrow> in_world MessageUpdateHandler_process
      | BusinessUpdateHandlerV2 \<Rightarrow> BusinessUpdateHandlerV2_process repo_update self)"

section \<open>Strategies\<close>

text \<open>
  The state a strategy call runs in: the \<open>next\<close> fields of the shared handler objects, the
  world, and the invocation log. The handlers are injected, so the strategies take the
  dispatch of \<open>process\<close> as an argument.
\<close>

record app =
  nexts :: "handler \<Rightarrow> handler option"
  world :: world
  trace :: "handler list"

type_synonym dispatch =
  "(DataProductDto option, world, handler) action \<Rightarrow> handler
     \<Rightarrow> (DataProductDto option, world, handler) action"

definition finish :: "'a \<Rightarrow> (handler \<Rightarrow> handler option) \<Rightarrow> unit result \<times> (world \<times> handler list)
     \<Rightarrow> 'a result \<times> app" where
  "finish v nx r =
     (case r of
        (Ok u, s') \<Rightarrow> (Ok v, \<lparr>nexts = nx, world = fst s', trace = snd s'\<rparr>)
      | (Raised e, s') \<Rightarrow> (Raised e, \<lparr>nexts = nx, world = fst s', trace = snd s'\<rparr>)
      | (Timeout, s') \<Rightarrow> (Timeout, \<lparr>nexts = nx, world = fst s', trace = snd s'\<rparr>))"

definition DataProductStrategyV1_create ::
  "dispatch \<Rightarrow> nat \<Rightarrow> DataProductDto \<Rightarrow> app \<Rightarrow> DataProductDto result \<times> app" where
  "DataProductStrategyV1_create P n dto s =
     (let (h1, nx1) = setNext ValidateCreateHandler BusinessCreateHandler (nexts s);
          (h2, nx2) = setNext h1 AuditCreateHandler nx1
      in finish dto nx2 (handle n P nx2 ValidateCreateHandler (Some dto) (world s, trace s)))"

definition DataProductStrategyV1_update ::
  "dispatch \<Rightarrow> nat \<Rightarrow> string \<Rightarrow> DataProductDto \<Rightarrow> app \<Rightarrow> DataProductDto result \<times> app" where
  "DataProductStrategyV1_update P n i dto0 s =
     (let dto = dto0\<lparr>dto_id := Some i\<rparr>;
          (h1, nx1) = setNext ValidateUpdateHandler BusinessUpdateHandler (nexts s);
          (h2, nx2) = setNext h1 AuditUpdateHandler nx1;
          (h3, nx3) = setNext h2 MessageUpdateHandler nx2
      in finish dto nx3 (handle n P nx3 ValidateUpdateHandler (Some dto) (world s, trace s)))"

definition DataProductStrategyV2_create ::
  "dispatch \<Rightarrow> nat \<Rightarrow> DataProductDto \<Rightarrow> app \<Rightarrow> DataProductDto result \<times> app" where
  "DataProductStrategyV2_create P n dto s = DataProductStrategyV1_create P n dto s"

definition DataProductStrategyV2_update ::
  "dispatch \<Rightarrow> nat \<Rightarrow> string \<Rightarrow> DataProductDto \<Rightarrow> app \<Rightarrow> DataProductDto result \<times> app" where
  "DataProductStrategyV2_update P n i dto0 s =
     (let dto = dto0\<lparr>dto_id := Some i\<rparr>;
          (h1, nx1) = setNext ValidateUpdateHandler BusinessUpdateHandlerV2 (nexts s);
          (h2, nx2) = setNext h1 AuditUpdateHandler nx1;
          (h3, nx3) = setNext h2 MessageUpdateHandler nx2
      in finish dto nx3 (handle n P nx3 ValidateUpdateHandler (Some dto) (world s, trace s)))"

text \<open>The abstract \<open>DataProductStrategy\<close>: \<open>create\<close> and \<open>update\<close>, dispatched on the instance.\<close>

datatype strategy = DataProductStrategyV1 | DataProductStrategyV2

fun create :: "strategy \<Rightarrow> dispatch \<Rightarrow> nat \<Rightarrow> DataProductDto \<Rightarrow> app \<Rightarrow> DataProductDto result \<times> app" where
  "create DataProductStrategyV1 = DataProductStrategyV1_create"
| "create DataProductStrategyV2 = DataProductStrategyV2_create"

fun update ::
  "strategy \<Rightarrow> dispatch \<Rightarrow> nat \<Rightarrow> string \<Rightarrow> DataProductDto \<Rightarrow> app \<Rightarrow> DataProductDto result \<times> app" where
  "update DataProductStrategyV1 = DataProductStrategyV1_update"
| "update DataProductStrategyV2 = DataProductStrategyV2_update"

text \<open>The business handler a version wires into its update chain.\<close>

fun business :: "strategy \<Rightarrow> handler" where
  "business DataProductStrategyV1 = BusinessUpdateHandler"
| "business DataProductStrategyV2 = BusinessUpdateHandlerV2"

section \<open>Strategy factory\<close>

text \<open>
  \<open>DataProductStrategyFactory.getStrategy\<close> of the factory that is constructed with both
  strategies: the two injected instances for \<open>v1\<close> and \<open>v2\<close>, and
  \<open>throw new Error(`Unsupported API version: ${version}`)\<close> for anything else. A second
  copy of the class in the same file knows \<open>v1\<close> only and is not well-formed TypeScript;
  it throws the same error for every token it does not know.
\<close>

definition getStrategy :: "string \<Rightarrow> strategy result" where
  "getStrategy version =
     (if version = ''v1'' then Ok DataProductStrategyV1
      else if version = ''v2'' then Ok DataProductStrategyV2
      else Raised (Error (''Unsupported API version: '' @ version)))"

section \<open>Reference notions for the properties\<close>

text \<open>
  Running a list of handlers by hand: each \<open>process\<close> in order, stopping at the first one
  that does not return normally. This is what the chain is said to do; \<open>handle\<close> is
  compared with it below.
\<close>

fun run :: "('h \<Rightarrow> 'c \<Rightarrow> 'w \<Rightarrow> unit result \<times> 'w) \<Rightarrow> 'h list \<Rightarrow> 'c \<Rightarrow> 'w \<Rightarrow> unit result \<times> 'w" where
  "run p [] c w = (Ok (), w)"
| "run p (h # hs) c w =
     (case p h c w of
        (Ok u, w') \<Rightarrow> run p hs c w'
      | (Raised e, w') \<Rightarrow> (Raised e, w')
      | (Timeout, w') \<Rightarrow> (Timeout, w'))"

text \<open>A list of handlers in which each one is the \<open>next\<close> of the one before it.\<close>

fun linked :: "('h \<Rightarrow> 'h option) \<Rightarrow> 'h list \<Rightarrow> bool" where
  "linked nx [] = True"
| "linked nx [h] = True"
| "linked nx (h # g # hs) = (nx h = Some g \<and> linked nx (g # hs))"

text \<open>
  Running a list of handlers under any dispatch of \<open>process\<close>, re-entrant ones included:
  each \<open>process\<close> in order, entered as \<open>handle\<close> enters it (logged, and with the inherited
  \<open>handle\<close> of its own object at the fuel that is left), stopping at the first one that
  does not return normally.
\<close>

fun steps ::
  "nat \<Rightarrow> (('c, 'w, 'h) action \<Rightarrow> 'h \<Rightarrow> ('c, 'w, 'h) action) \<Rightarrow> ('h \<Rightarrow> 'h option) \<Rightarrow> 'h list
     \<Rightarrow> ('c, 'w, 'h) action" where
  "steps n P nx [] c s = (Ok (), s)"
| "steps 0 P nx (h # hs) c s = (Timeout, s)"
| "steps (Suc n) P nx (h # hs) c s =
     (case P (handle n P nx h) h c (fst s, snd s @ [h]) of
        (Ok u, s') \<Rightarrow> steps n P nx hs c s'
      | (Raised e, s') \<Rightarrow> (Raised e, s')
      | (Timeout, s') \<Rightarrow> (Timeout, s'))"

text \<open>
  Submitting a DTO to the repository's \<open>update\<close> and then, again and again, the record it
  resolved with: the record and the collection after \<open>n\<close> rounds.
\<close>

fun resubmit ::
  "repo_update \<Rightarrow> nat \<Rightarrow> DataProductDto \<Rightarrow> collection \<Rightarrow> DataProductDto \<times> collection" where
  "resubmit upd 0 dto m = (dto, m)"
| "resubmit upd (Suc n) dto m =
     (case upd (dto_id dto) dto m of
        (Ok (Some r), m') \<Rightarrow> resubmit upd n r m'
      | (_, m') \<Rightarrow> (dto, m'))"

text \<open>The update chain of a version: validate, business of that version, audit, message.\<close>

definition update_chain ::
  "strategy \<Rightarrow> (handler \<Rightarrow> handler option) \<Rightarrow> handler \<Rightarrow> handler option" where
  "update_chain v nx =
     nx(ValidateUpdateHandler \<mapsto> business v, business v \<mapsto> AuditUpdateHandler,
        AuditUpdateHandler \<mapsto> MessageUpdateHandler)"

section \<open>Example states and requests\<close>

text \<open>A collection holding one document, and an application state over it.\<close>

definition catalog_a :: DataProduct where
  "catalog_a = \<lparr>ent_id = ''1'', ent_name = Some ''Catalog A'', ent_infoport = Some ''p''\<rparr>"

definition stored :: collection where
  "stored = [''1'' \<mapsto> catalog_a]"

definition app0 :: app where
  "app0 = \<lparr>nexts = (\<lambda>h. None), world = \<lparr>model = stored, console = []\<rparr>, trace = []\<rparr>"

text \<open>An update of document 1 that changes its name.\<close>

definition renamed :: DataProductDto where
  "renamed = \<lparr>dto_id = Some ''1'', dto_name = Some ''Renamed'', dto_infoport = Some ''p'',
      dto_description = None, dto_status = None, dto_createdAt = None, dto_updatedAt = None\<rparr>"

text \<open>A DTO in which the client supplies an identifier, a description and both timestamps.\<close>

definition client_dto :: DataProductDto where
  "client_dto = \<lparr>dto_id = Some ''client-id'', dto_name = Some ''Catalog A'',
      dto_infoport = Some ''p'', dto_description = Some ''text'', dto_status = None,
      dto_createdAt = Some 1, dto_updatedAt = Some 2\<rparr>"

text \<open>An update DTO with no identifier and a name of one character between two spaces.\<close>

definition short_name_no_id :: DataProductDto where
  "short_name_no_id = \<lparr>dto_id = None, dto_name = Some '' a '', dto_infoport = Some ''p'',
      dto_description = None, dto_status = None, dto_createdAt = None, dto_updatedAt = None\<rparr>"

text \<open>The same update aimed at identifier 42, which the collection does not hold.\<close>

definition unknown :: DataProductDto where
  "unknown = \<lparr>dto_id = Some ''42'', dto_name = Some ''Renamed'', dto_infoport = Some ''p'',
      dto_description = None, dto_status = None, dto_createdAt = None, dto_updatedAt = None\<rparr>"

text \<open>
  A repository double whose \<open>update\<close> always resolves with a record: it stores the entity
  of the DTO under the identifier, whether or not a document was there.
\<close>

definition upserting :: repo_update where
  "upserting i dto m =
     (let e = (toEntity dto)\<lparr>ent_id := (case i of None \<Rightarrow> [] | Some k \<Rightarrow> k)\<rparr>
      in (Ok (Some (toDto e)), m(ent_id e \<mapsto> e)))"

text \<open>
  Three recording test doubles wired A, B, C: each appends itself to the world, which is
  the list of the doubles that ran, and B raises.
\<close>

datatype stage = StageA | StageB | StageC

definition recording :: "stage \<Rightarrow> unit \<Rightarrow> stage list \<Rightarrow> unit result \<times> stage list" where
  "recording h c log = (if h = StageB then Raised (Error ''B fails'') else Ok (), log @ [h])"

definition abc :: "stage \<Rightarrow> stage option" where
  "abc = [StageA \<mapsto> StageB, StageB \<mapsto> StageC]"

section \<open>Properties\<close>

subsection \<open>Auxiliary facts\<close>

text \<open>
  One step of \<open>handle\<close>, for any \<open>process\<close> at all, re-entrant ones included: an error of
  \<open>process\<close> is the outcome of \<open>handle\<close>, with the state as \<open>process\<close> left it; a normal
  return ends the call when there is no successor and goes on with the successor's
  \<open>handle\<close> when there is one.
\<close>

lemma handle_steps:
  "P (handle n P nx h) h c (fst s, snd s @ [h]) = (Raised e, s') \<Longrightarrow>
     handle (Suc n) P nx h c s = (Raised e, s')"
  "P (handle n P nx h) h c (fst s, snd s @ [h]) = (Ok u, s') \<Longrightarrow> nx h = None \<Longrightarrow>
     handle (Suc n) P nx h c s = (Ok (), s')"
  "P (handle n P nx h) h c (fst s, snd s @ [h]) = (Ok u, s') \<Longrightarrow> nx h = Some g \<Longrightarrow>
     handle (Suc n) P nx h c s = handle n P nx g c s'"
  by simp_all

text \<open>
  When the handlers of a list act on the world only, \<open>steps\<close> that returns normally has
  logged exactly that list and has changed the world as running the list by hand does.
\<close>

lemma steps_world_only:
  "\<forall>g\<in>set pre. \<forall>self. P self g = in_world (p g) \<Longrightarrow> steps n P nx pre c s = (Ok (), s0) \<Longrightarrow>
   snd s0 = snd s @ pre \<and> run p pre c (fst s) = (Ok (), fst s0)"
proof (induction pre arbitrary: n s)
  case Nil
  then show ?case by simp
next
  case (Cons h pre)
  from Cons.prems(2) obtain k where n: "n = Suc k" by (cases n) auto
  obtain r1 w1 where ph: "p h c (fst s) = (r1, w1)" by (cases "p h c (fst s)")
  from Cons.prems(1) have P: "P (handle k P nx h) h c (fst s, snd s @ [h]) = (r1, (w1, snd s @ [h]))"
    by (simp add: in_world_def ph)
  from Cons.prems(2) n P have r1: "r1 = Ok ()" and st: "steps k P nx pre c (w1, snd s @ [h]) = (Ok (), s0)"
    by (cases r1; simp)+
  from Cons.prems(1) have "\<forall>g\<in>set pre. \<forall>self. P self g = in_world (p g)" by simp
  from Cons.IH [OF this st] ph r1 show ?case by simp
qed

text \<open>
  The loop of the v2 business handler. While the repository's \<open>update\<close> resolves with a
  record (and keeps doing so: \<open>I\<close> is what is preserved), \<open>process\<close> hands that record to
  the \<open>handle\<close> of its own object, which enters \<open>process\<close> again: whatever the fuel, the
  call has not returned when it is spent, the collection is what that many rounds of
  \<open>update\<close> left, and the log holds this handler only.
\<close>

lemma v2_loop:
  assumes step: "\<And>d m. I d m \<Longrightarrow> \<exists>r m'. repo_update (dto_id d) d m = (Ok (Some r), m') \<and> I r m'"
  shows "I dto (model (fst s)) \<Longrightarrow>
         handle n (process repo_update) nx BusinessUpdateHandlerV2 (Some dto) s =
           (Timeout, ((fst s)\<lparr>model := snd (resubmit repo_update n dto (model (fst s)))\<rparr>,
                      snd s @ replicate n BusinessUpdateHandlerV2))"
proof (induction n arbitrary: dto s)
  case 0
  then show ?case by simp
next
  case (Suc n)
  from step [OF Suc.prems] obtain r m' where
    u: "repo_update (dto_id dto) dto (model (fst s)) = (Ok (Some r), m')" and i: "I r m'"
    by blast
  let ?s1 = "((fst s)\<lparr>model := m'\<rparr>, snd s @ [BusinessUpdateHandlerV2])"
  let ?inner = "handle n (process repo_update) nx BusinessUpdateHandlerV2 (Some r) ?s1"
  have p: "process repo_update (handle n (process repo_update) nx BusinessUpdateHandlerV2)
             BusinessUpdateHandlerV2 (Some dto) (fst s, snd s @ [BusinessUpdateHandlerV2]) = ?inner"
    by (simp add: process_def BusinessUpdateHandlerV2_process_def u)
  from i have "I r (model (fst ?s1))" by simp
  from Suc.IH [OF this] have e: "?inner =
      (Timeout, ((fst s)\<lparr>model := snd (resubmit repo_update n r m')\<rparr>,
                 snd s @ replicate (Suc n) BusinessUpdateHandlerV2))"
    by (simp add: replicate_app_Cons_same)
  have "handle (Suc n) (process repo_update) nx BusinessUpdateHandlerV2 (Some dto) s = ?inner"
    using p e by simp
  with e u show ?case by simp
qed

text \<open>
  The repository of the sources keeps resolving with a record once the identifier of the
  DTO is that of a stored document: the record it resolves with carries the same
  identifier, and the document stays.
\<close>

lemma DataProductRepository_update_present:
  "(\<exists>k. dto_id d = Some k \<and> m k \<noteq> None) \<Longrightarrow>
   \<exists>r m'. DataProductRepository_update (dto_id d) d m = (Ok (Some r), m') \<and>
     (\<exists>k. dto_id r = Some k \<and> m' k \<noteq> None)"
  by (auto simp: DataProductRepository_update_def findByIdAndUpdate_def toDto_def Let_def)

subsection \<open>The claims\<close>

text \<open>
  C1. The claim: when the name of the incoming DTO differs from the stored name, the v2
  business-update handler fails with a validation error and leaves the repository as it
  was. The handler of the sources does neither. On the stored document \<open>Catalog A\<close> and
  the DTO \<open>renamed\<close>, its call has not returned for any amount of fuel, so it never
  raises the validation error, and its first step has already overwritten the stored
  name.
\<close>

theorem v2_name_change_not_rejected:
  "(\<forall>n. fst (handle n (process DataProductRepository_update) (nexts app0) BusinessUpdateHandlerV2
        (Some renamed) (world app0, [])) = Timeout) \<and>
   model (fst (snd (handle (Suc 0) (process DataProductRepository_update) (nexts app0)
        BusinessUpdateHandlerV2 (Some renamed) (world app0, [])))) ''1'' =
     Some (catalog_a\<lparr>ent_name := Some ''Renamed''\<rparr>)"
proof -
  have i: "\<exists>k. dto_id renamed = Some k \<and> model (fst (world app0, [])) k \<noteq> None"
    by (simp add: renamed_def app0_def stored_def)
  have "\<forall>n. fst (handle n (process DataProductRepository_update) (nexts app0) BusinessUpdateHandlerV2
        (Some renamed) (world app0, [])) = Timeout"
    using v2_loop [where I = "\<lambda>d m. \<exists>k. dto_id d = Some k \<and> m k \<noteq> None"
        and repo_update = DataProductRepository_update, OF DataProductRepository_update_present i]
    by simp
  moreover have "model (fst (snd (handle (Suc 0) (process DataProductRepository_update) (nexts app0)
        BusinessUpdateHandlerV2 (Some renamed) (world app0, [])))) ''1'' =
     Some (catalog_a\<lparr>ent_name := Some ''Renamed''\<rparr>)"
    by (simp add: process_def BusinessUpdateHandlerV2_process_def DataProductRepository_update_def
        findByIdAndUpdate_def toEntity_def toDomain_def toDto_def renamed_def app0_def stored_def
        Let_def catalog_a_def)
  ultimately show ?thesis by blast
qed

text \<open>
  C2, as amended. For the strategy of either version, every identifier and every DTO:
  \<open>update\<close> stamps the identifier onto the DTO, wires the update chain (validate, the
  business handler of the version, audit, message), and runs it on the stamped DTO from
  the validate handler. When the chain completes it returns that stamped DTO, the
  in-flight context, and reads nothing back from the repository; when the chain raises,
  the error is the outcome. The state it leaves is the one the chain left.
\<close>

theorem update_returns_context:
  "nexts (snd (update v P n i dto s)) = update_chain v (nexts s) \<and>
   fst (update v P n i dto s) =
     (case fst (handle n P (update_chain v (nexts s)) ValidateUpdateHandler
                  (Some (dto\<lparr>dto_id := Some i\<rparr>)) (world s, trace s)) of
        Ok u \<Rightarrow> Ok (dto\<lparr>dto_id := Some i\<rparr>)
      | Raised e \<Rightarrow> Raised e
      | Timeout \<Rightarrow> Timeout) \<and>
   (world (snd (update v P n i dto s)), trace (snd (update v P n i dto s))) =
     snd (handle n P (update_chain v (nexts s)) ValidateUpdateHandler
            (Some (dto\<lparr>dto_id := Some i\<rparr>)) (world s, trace s))"
  by (cases v)
    (simp_all add: DataProductStrategyV1_update_def DataProductStrategyV2_update_def setNext_def
      finish_def update_chain_def Let_def split: prod.splits result.splits)

text \<open>
  The claim as it stands fails: the v1 \<open>update\<close> of document 1 with \<open>client_dto\<close> returns
  the client's DTO with the identifier stamped on it, description and timestamps
  included, while the record read back from the repository afterwards has none of them.
\<close>

theorem update_not_reread_counterexample:
  "fst (update DataProductStrategyV1 (process DataProductRepository_update) (Suc (Suc (Suc (Suc 0))))
          ''1'' client_dto app0) = Ok (client_dto\<lparr>dto_id := Some ''1''\<rparr>) \<and>
   fst (DataProductRepository_findById ''1''
          (model (world (snd (update DataProductStrategyV1 (process DataProductRepository_update)
             (Suc (Suc (Suc (Suc 0)))) ''1'' client_dto app0))))) = Ok (Some (toDto catalog_a)) \<and>
   client_dto\<lparr>dto_id := Some ''1''\<rparr> \<noteq> toDto catalog_a"
  by (simp add: DataProductStrategyV1_update_def setNext_def finish_def process_def in_world_def
      ValidateUpdateHandler_process_def BusinessUpdateHandler_process_def
      AuditUpdateHandler_process_def MessageUpdateHandler_process_def falsy_def
      DataProductRepository_update_def DataProductRepository_findById_def findById_def
      findByIdAndUpdate_def toEntity_def toDomain_def toDto_def Let_def
      client_dto_def app0_def stored_def catalog_a_def)

text \<open>
  C3. The factory resolves \<open>v1\<close> and \<open>v2\<close> to two distinct strategy instances, and for every
  other version token it fails with the unsupported-version error; it never falls back
  to a default strategy.
\<close>

theorem getStrategy_resolution:
  "getStrategy ''v1'' = Ok DataProductStrategyV1 \<and>
   getStrategy ''v2'' = Ok DataProductStrategyV2 \<and>
   DataProductStrategyV1 \<noteq> DataProductStrategyV2 \<and>
   (\<forall>v. v \<noteq> ''v1'' \<and> v \<noteq> ''v2'' \<longrightarrow>
      getStrategy v = Raised (Error (''Unsupported API version: '' @ v)))"
  by (simp add: getStrategy_def)

theorem getStrategy_resolution_witness:
  "getStrategy ''v1'' \<noteq> getStrategy ''v2'' \<and>
   getStrategy ''v3'' = Raised (Error ''Unsupported API version: v3'')"
  using getStrategy_resolution by simp

text \<open>
  C4. For every dispatch of \<open>process\<close>, every linked chain of handlers that ends in a
  handler without successor, every context and every state: with fuel for each handler
  of the chain, \<open>handle\<close> on the first handler enters the \<open>process\<close> of the handlers of a
  prefix \<open>pre @ [f]\<close> of the chain, in order, and of no handler after \<open>f\<close>. Every
  \<open>process\<close> of \<open>pre\<close> returned normally; the outcome and the state of \<open>handle\<close> are
  exactly those of the \<open>process\<close> of \<open>f\<close>, so an error raised there is the outcome of
  \<open>handle\<close>; and when \<open>f\<close> returned normally it is the last handler of the chain.
  When the handlers entered act on the world only, the log of the handlers entered is
  \<open>pre @ [f]\<close> itself and the world is the one running them by hand gives.
\<close>

theorem handle_chain:
  assumes "linked nx hs" and "hs \<noteq> []" and "nx (last hs) = None" and "length hs \<le> n"
  shows "\<exists>pre f post r s0 s'.
           hs = pre @ f # post \<and>
           steps n P nx pre c s = (Ok (), s0) \<and>
           P (handle (n - Suc (length pre)) P nx f) f c (fst s0, snd s0 @ [f]) = (r, s') \<and>
           (r = Ok () \<longrightarrow> post = []) \<and>
           handle n P nx (hd hs) c s = (r, s') \<and>
           ((\<forall>g\<in>set (pre @ [f]). \<forall>self. P self g = in_world (p g)) \<longrightarrow>
              snd s' = snd s @ pre @ [f] \<and> run p pre c (fst s) = (Ok (), fst s0) \<and>
              p f c (fst s0) = (r, fst s'))"
proof -
  have main: "linked nx hs \<Longrightarrow> hs \<noteq> [] \<Longrightarrow> nx (last hs) = None \<Longrightarrow> length hs \<le> n \<Longrightarrow>
    \<exists>pre f post r s0 s'.
           hs = pre @ f # post \<and>
           steps n P nx pre c s = (Ok (), s0) \<and>
           P (handle (n - Suc (length pre)) P nx f) f c (fst s0, snd s0 @ [f]) = (r, s') \<and>
           (r = Ok () \<longrightarrow> post = []) \<and>
           handle n P nx (hd hs) c s = (r, s')" for n s
  proof (induction hs arbitrary: n s)
    case Nil
    then show ?case by simp
  next
    case (Cons h hs)
    then obtain k where n: "n = Suc k" by (cases n) auto
    obtain r1 s1 where ph: "P (handle k P nx h) h c (fst s, snd s @ [h]) = (r1, s1)"
      by (cases "P (handle k P nx h) h c (fst s, snd s @ [h])")
    show ?case
    proof (cases "r1 = Ok () \<and> hs \<noteq> []")
      case True
      then obtain g where g: "nx h = Some g" "hd hs = g" "linked nx hs" "nx (last hs) = None"
        "length hs \<le> k"
        using Cons.prems n by (cases hs) auto
      from Cons.IH [OF g(3) _ g(4,5), of s1] True obtain pre f post r s0 s' where
        a: "hs = pre @ f # post" "steps k P nx pre c s1 = (Ok (), s0)"
           "P (handle (k - Suc (length pre)) P nx f) f c (fst s0, snd s0 @ [f]) = (r, s')"
           "r = Ok () \<longrightarrow> post = []" "handle k P nx (hd hs) c s1 = (r, s')"
        by blast
      show ?thesis
        using a ph True g n
        by (intro exI [of _ "h # pre"] exI [of _ f] exI [of _ post] exI [of _ r]
            exI [of _ s0] exI [of _ s']) simp
    next
      case False
      have "handle n P nx h c s = (r1, s1)"
      proof (cases r1)
        case (Ok u)
        with False have "hs = []" by simp
        with Cons.prems have "nx h = None" by simp
        with ph Ok n show ?thesis by simp
      qed (use ph n in simp_all)
      with ph n False show ?thesis
        by (intro exI [of _ "[]"] exI [of _ h] exI [of _ hs] exI [of _ r1]
            exI [of _ s] exI [of _ s1]) auto
    qed
  qed
  from main [OF assms, of s] obtain pre f post r s0 s' where
    a: "hs = pre @ f # post" "steps n P nx pre c s = (Ok (), s0)"
       "P (handle (n - Suc (length pre)) P nx f) f c (fst s0, snd s0 @ [f]) = (r, s')"
       "r = Ok () \<longrightarrow> post = []" "handle n P nx (hd hs) c s = (r, s')"
    by blast
  have "snd s' = snd s @ pre @ [f] \<and> run p pre c (fst s) = (Ok (), fst s0) \<and>
        p f c (fst s0) = (r, fst s')"
    if w: "\<forall>g\<in>set (pre @ [f]). \<forall>self. P self g = in_world (p g)"
  proof -
    from w have "\<forall>g\<in>set pre. \<forall>self. P self g = in_world (p g)" by simp
    from steps_world_only [OF this a(2)]
    have l: "snd s0 = snd s @ pre" "run p pre c (fst s) = (Ok (), fst s0)" by simp_all
    from w have "P (handle (n - Suc (length pre)) P nx f) f = in_world (p f)" by simp
    with a(3) have "in_world (p f) c (fst s0, snd s0 @ [f]) = (r, s')" by simp
    then have "p f c (fst s0) = (r, fst s')" "snd s' = snd s0 @ [f]"
      by (auto simp: in_world_def split: prod.splits)
    with l show ?thesis by simp
  qed
  with a show ?thesis by blast
qed

text \<open>
  Two chains. The recording doubles A, B, C with fuel 3: B raises, the doubles that ran
  are A and B, and C never ran. The v2 update chain of the sources with fuel 4, on an
  identifier the collection does not hold: the business handler re-enters itself with
  the \<open>null\<close> the repository resolved with and raises, and neither the audit nor the
  message handler is entered.
\<close>

theorem handle_chain_witness:
  "linked abc [StageA, StageB, StageC] \<and> abc (last [StageA, StageB, StageC]) = None \<and>
   handle (Suc (Suc (Suc 0))) (simple recording) abc StageA () ([], []) =
     (Raised (Error ''B fails''), ([StageA, StageB], [StageA, StageB])) \<and>
   (\<exists>pre f post r s0 s'. [StageA, StageB, StageC] = pre @ f # post \<and>
      steps (Suc (Suc (Suc 0))) (simple recording) abc pre () ([], []) = (Ok (), s0) \<and>
      handle (Suc (Suc (Suc 0))) (simple recording) abc StageA () ([], []) = (r, s') \<and>
      snd s' = pre @ [f] \<and> run recording pre () [] = (Ok (), fst s0) \<and>
      recording f () (fst s0) = (r, fst s')) \<and>
   linked (update_chain DataProductStrategyV2 (nexts app0))
     [ValidateUpdateHandler, BusinessUpdateHandlerV2, AuditUpdateHandler, MessageUpdateHandler] \<and>
   handle (Suc (Suc (Suc (Suc 0)))) (process DataProductRepository_update)
       (update_chain DataProductStrategyV2 (nexts app0)) ValidateUpdateHandler (Some unknown)
       (world app0, []) =
     (Raised (TypeError ''Cannot read properties of null''),
      (world app0, [ValidateUpdateHandler, BusinessUpdateHandlerV2, BusinessUpdateHandlerV2])) \<and>
   (\<exists>pre f post r s0 s'.
      [ValidateUpdateHandler, BusinessUpdateHandlerV2, AuditUpdateHandler, MessageUpdateHandler] =
        pre @ f # post \<and>
      steps (Suc (Suc (Suc (Suc 0)))) (process DataProductRepository_update)
        (update_chain DataProductStrategyV2 (nexts app0)) pre (Some unknown) (world app0, []) =
        (Ok (), s0) \<and>
      process DataProductRepository_update
        (handle (Suc (Suc (Suc (Suc 0))) - Suc (length pre)) (process DataProductRepository_update)
           (update_chain DataProductStrategyV2 (nexts app0)) f)
        f (Some unknown) (fst s0, snd s0 @ [f]) = (r, s') \<and>
      handle (Suc (Suc (Suc (Suc 0)))) (process DataProductRepository_update)
        (update_chain DataProductStrategyV2 (nexts app0)) ValidateUpdateHandler (Some unknown)
        (world app0, []) = (r, s'))"
proof -
  have l1: "linked abc [StageA, StageB, StageC]" "[StageA, StageB, StageC] \<noteq> []"
    "abc (last [StageA, StageB, StageC]) = None"
    "length [StageA, StageB, StageC] \<le> Suc (Suc (Suc 0))"
    by (simp_all add: abc_def)
  have e1: "\<exists>pre f post r s0 s'. [StageA, StageB, StageC] = pre @ f # post \<and>
      steps (Suc (Suc (Suc 0))) (simple recording) abc pre () ([], []) = (Ok (), s0) \<and>
      handle (Suc (Suc (Suc 0))) (simple recording) abc StageA () ([], []) = (r, s') \<and>
      snd s' = pre @ [f] \<and> run recording pre () [] = (Ok (), fst s0) \<and>
      recording f () (fst s0) = (r, fst s')"
  proof -
    from handle_chain [OF l1, of "simple recording" "()" "([], [])" recording]
    obtain pre f post r s0 s' where
      a: "[StageA, StageB, StageC] = pre @ f # post"
         "steps (Suc (Suc (Suc 0))) (simple recording) abc pre () ([], []) = (Ok (), s0)"
         "handle (Suc (Suc (Suc 0))) (simple recording) abc (hd [StageA, StageB, StageC]) ()
            ([], []) = (r, s')"
      and b: "(\<forall>g\<in>set (pre @ [f]). \<forall>self. simple recording self g = in_world (recording g)) \<longrightarrow>
                snd s' = snd ([]::stage list, []::stage list) @ pre @ [f] \<and>
                run recording pre () (fst ([]::stage list, []::stage list)) = (Ok (), fst s0) \<and>
                recording f () (fst s0) = (r, fst s')"
      by (elim exE conjE)
    have "\<forall>g\<in>set (pre @ [f]). \<forall>self. simple recording self g = in_world (recording g)"
      by (simp add: simple_def)
    with b have c: "snd s' = pre @ [f]" "run recording pre () [] = (Ok (), fst s0)"
        "recording f () (fst s0) = (r, fst s')" by simp_all
    from a(3) have d: "handle (Suc (Suc (Suc 0))) (simple recording) abc StageA () ([], []) = (r, s')"
      by (simp del: handle.simps)
    from a(1,2) d c show ?thesis
      by (intro exI [of _ pre] exI [of _ f] exI [of _ post] exI [of _ r] exI [of _ s0]
          exI [of _ s'] conjI)
  qed
  have h1: "handle (Suc (Suc (Suc 0))) (simple recording) abc StageA () ([], []) =
     (Raised (Error ''B fails''), ([StageA, StageB], [StageA, StageB]))"
    by (simp add: simple_def in_world_def recording_def abc_def)
  have l2: "linked (update_chain DataProductStrategyV2 (nexts app0))
       [ValidateUpdateHandler, BusinessUpdateHandlerV2, AuditUpdateHandler, MessageUpdateHandler]"
    "[ValidateUpdateHandler, BusinessUpdateHandlerV2, AuditUpdateHandler, MessageUpdateHandler] \<noteq> []"
    "update_chain DataProductStrategyV2 (nexts app0)
       (last [ValidateUpdateHandler, BusinessUpdateHandlerV2, AuditUpdateHandler,
              MessageUpdateHandler]) = None"
    "length [ValidateUpdateHandler, BusinessUpdateHandlerV2, AuditUpdateHandler,
             MessageUpdateHandler] \<le> Suc (Suc (Suc (Suc 0)))"
    by (simp_all add: update_chain_def app0_def)
  have e2: "\<exists>pre f post r s0 s'.
      [ValidateUpdateHandler, BusinessUpdateHandlerV2, AuditUpdateHandler, MessageUpdateHandler] =
        pre @ f # post \<and>
      steps (Suc (Suc (Suc (Suc 0)))) (process DataProductRepository_update)
        (update_chain DataProductStrategyV2 (nexts app0)) pre (Some unknown) (world app0, []) =
        (Ok (), s0) \<and>
      process DataProductRepository_update
        (handle (Suc (Suc (Suc (Suc 0))) - Suc (length pre)) (process DataProductRepository_update)
           (update_chain DataProductStrategyV2 (nexts app0)) f)
        f (Some unknown) (fst s0, snd s0 @ [f]) = (r, s') \<and>
      handle (Suc (Suc (Suc (Suc 0)))) (process DataProductRepository_update)
        (update_chain DataProductStrategyV2 (nexts app0)) ValidateUpdateHandler (Some unknown)
        (world app0, []) = (r, s')"
  proof -
    from handle_chain [OF l2, of "process DataProductRepository_update" "Some unknown"
        "(world app0, [])" "\<lambda>g. AuditUpdateHandler_process"]
    obtain pre f post r s0 s' where
      a: "[ValidateUpdateHandler, BusinessUpdateHandlerV2, AuditUpdateHandler,
           MessageUpdateHandler] = pre @ f # post"
        "steps (Suc (Suc (Suc (Suc 0)))) (process DataProductRepository_update)
          (update_chain DataProductStrategyV2 (nexts app0)) pre (Some unknown) (world app0, []) =
          (Ok (), s0)"
        "process DataProductRepository_update
          (handle (Suc (Suc (Suc (Suc 0))) - Suc (length pre)) (process DataProductRepository_update)
             (update_chain DataProductStrategyV2 (nexts app0)) f)
          f (Some unknown) (fst s0, snd s0 @ [f]) = (r, s')"
        "handle (Suc (Suc (Suc (Suc 0)))) (process DataProductRepository_update)
          (update_chain DataProductStrategyV2 (nexts app0))
          (hd [ValidateUpdateHandler, BusinessUpdateHandlerV2, AuditUpdateHandler,
               MessageUpdateHandler]) (Some unknown) (world app0, []) = (r, s')"
      by (elim exE conjE)
    from a(4) have d: "handle (Suc (Suc (Suc (Suc 0)))) (process DataProductRepository_update)
          (update_chain DataProductStrategyV2 (nexts app0)) ValidateUpdateHandler (Some unknown)
          (world app0, []) = (r, s')"
      by (simp del: handle.simps)
    from a(1-3) d show ?thesis
      by (intro exI [of _ pre] exI [of _ f] exI [of _ post] exI [of _ r] exI [of _ s0]
          exI [of _ s'] conjI)
  qed
  have h2: "handle (Suc (Suc (Suc (Suc 0)))) (process DataProductRepository_update)
       (update_chain DataProductStrategyV2 (nexts app0)) ValidateUpdateHandler (Some unknown)
       (world app0, []) =
     (Raised (TypeError ''Cannot read properties of null''),
      (world app0, [ValidateUpdateHandler, BusinessUpdateHandlerV2, BusinessUpdateHandlerV2]))"
    by (simp add: update_chain_def process_def in_world_def ValidateUpdateHandler_process_def
        BusinessUpdateHandlerV2_process_def DataProductRepository_update_def findByIdAndUpdate_def
        falsy_def unknown_def app0_def stored_def)
  from l1(1,3) h1 e1 l2(1) h2 e2 show ?thesis by (intro conjI)
qed

text \<open>
  C5, as amended. For every identifier that no stored document has, the repository's
  \<open>update\<close> resolves with \<open>null\<close> and its \<open>delete\<close> resolves normally; neither raises an
  error, and neither changes the collection.
\<close>

theorem repository_unknown_id:
  "m k = None \<Longrightarrow>
   DataProductRepository_update (Some k) dto m = (Ok None, m) \<and>
   DataProductRepository_delete k m = (Ok (), m)"
  by (simp add: DataProductRepository_update_def DataProductRepository_delete_def
      findByIdAndUpdate_def findByIdAndDelete_def fun_upd_idem)

theorem repository_unknown_id_witness:
  "stored ''42'' = None \<and>
   DataProductRepository_update (Some ''42'') renamed stored = (Ok None, stored) \<and>
   DataProductRepository_delete ''42'' stored = (Ok (), stored)"
proof -
  have h: "stored ''42'' = None" by (simp add: stored_def)
  from repository_unknown_id [where m = stored and k = "''42''" and dto = renamed, OF h] h
  show ?thesis by simp
qed

text \<open>
  The claim as it stands fails: on identifier 42, which the collection \<open>stored\<close> does not
  hold, \<open>update\<close> and \<open>delete\<close> both return normally instead of failing.
\<close>

theorem repository_unknown_id_counterexample:
  "fst (DataProductRepository_update (Some ''42'') renamed stored) = Ok None \<and>
   fst (DataProductRepository_delete ''42'' stored) = Ok ()"
  by (simp add: DataProductRepository_update_def DataProductRepository_delete_def
      findByIdAndUpdate_def stored_def)

text \<open>
  C6. The claim: \<open>create\<close> returns a record whose identifier and timestamps the system
  assigned. The v1 \<open>create\<close> of the sources returns the DTO it was given: on \<open>client_dto\<close>
  the identifier and the timestamps of the result are the client's, and nothing has been
  stored.
\<close>

theorem v1_create_echoes_client_dto:
  "fst (create DataProductStrategyV1 (process DataProductRepository_update) (Suc (Suc (Suc 0)))
        client_dto app0) = Ok client_dto \<and>
   dto_id client_dto = Some ''client-id'' \<and> dto_createdAt client_dto = Some 1 \<and>
   dto_updatedAt client_dto = Some 2 \<and>
   model (world (snd (create DataProductStrategyV1 (process DataProductRepository_update)
        (Suc (Suc (Suc 0))) client_dto app0))) = stored"
  by (simp add: DataProductStrategyV1_create_def setNext_def finish_def process_def in_world_def
      ValidateCreateHandler_process_def BusinessCreateHandler_process_def
      AuditCreateHandler_process_def trim_def client_dto_def app0_def)

text \<open>
  C7, as amended. For every update context and every world, the Validate-Update handler
  raises its validation error exactly when the name is missing or empty or the infoport
  is missing or empty; it does not look at the identifier and neither trims nor measures
  the name. Its \<open>process\<close> never calls the repository: the outcome does not depend on the
  world, and the world is returned as it was. On \<open>null\<close> it raises a \<open>TypeError\<close>.
\<close>

theorem validate_update_checks:
  "ValidateUpdateHandler_process (Some dto) w =
     (if falsy (dto_name dto) \<or> falsy (dto_infoport dto)
      then Raised (Error ''Validation failed'') else Ok (), w) \<and>
   ValidateUpdateHandler_process None w = (Raised (TypeError ''Cannot read properties of null''), w)"
  by (simp add: ValidateUpdateHandler_process_def)

text \<open>
  The claim as it stands fails: \<open>short_name_no_id\<close> has no identifier and a name that is
  one character long after trimming, and the handler accepts it.
\<close>

theorem validate_update_counterexample:
  "dto_id short_name_no_id = None \<and> dto_name short_name_no_id = Some '' a '' \<and>
   length (trim '' a '') = 1 \<and>
   fst (ValidateUpdateHandler_process (Some short_name_no_id) (world app0)) = Ok ()"
  by (simp add: ValidateUpdateHandler_process_def falsy_def short_name_no_id_def trim_def)

text \<open>
  C8. For every DTO, \<open>create\<close> of the v2 strategy returns exactly what \<open>create\<close> of the v1
  strategy returns, and leaves the same state: v2 delegates the operation to v1.
\<close>

theorem v2_create_delegates_to_v1:
  "create DataProductStrategyV2 P n dto s = create DataProductStrategyV1 P n dto s"
  by (simp add: DataProductStrategyV2_create_def)

text \<open>
  C9. If the repository's \<open>update\<close> always resolves with a record, then \<open>process\<close> of the
  v2 business-update handler, having persisted through that \<open>update\<close>, is the inherited
  \<open>handle\<close> of the same object applied to the record returned, in the collection the
  \<open>update\<close> left. So \<open>handle\<close> of this handler does not terminate: for every amount of
  fuel it has not returned when the fuel is spent; the collection is then what that many
  rounds of \<open>update\<close>, each on the record the round before returned, have left; and the
  handlers entered are this one only, once per unit of fuel, so a linked successor is
  never reached.
\<close>

theorem v2_handle_never_returns:
  assumes "\<forall>i d m. \<exists>r m'. repo_update i d m = (Ok (Some r), m')"
  shows "(\<exists>r m'. repo_update (dto_id dto) dto (model (fst s)) = (Ok (Some r), m') \<and>
            (\<forall>self. process repo_update self BusinessUpdateHandlerV2 (Some dto) s =
                      self (Some r) ((fst s)\<lparr>model := m'\<rparr>, snd s))) \<and>
         handle n (process repo_update) nx BusinessUpdateHandlerV2 (Some dto) s =
           (Timeout, ((fst s)\<lparr>model := snd (resubmit repo_update n dto (model (fst s)))\<rparr>,
                      snd s @ replicate n BusinessUpdateHandlerV2))"
proof
  from assms obtain r m' where u: "repo_update (dto_id dto) dto (model (fst s)) = (Ok (Some r), m')"
    by blast
  then have "\<forall>self. process repo_update self BusinessUpdateHandlerV2 (Some dto) s =
                      self (Some r) ((fst s)\<lparr>model := m'\<rparr>, snd s)"
    by (simp add: process_def BusinessUpdateHandlerV2_process_def)
  with u show "\<exists>r m'. repo_update (dto_id dto) dto (model (fst s)) = (Ok (Some r), m') \<and>
            (\<forall>self. process repo_update self BusinessUpdateHandlerV2 (Some dto) s =
                      self (Some r) ((fst s)\<lparr>model := m'\<rparr>, snd s))"
    by (intro exI [of _ r] exI [of _ m'] conjI)
next
  have "\<And>d m. True \<Longrightarrow> \<exists>r m'. repo_update (dto_id d) d m = (Ok (Some r), m') \<and> True"
    using assms by simp
  from v2_loop [where I = "\<lambda>d m. True" and repo_update = repo_update, OF this]
  show "handle n (process repo_update) nx BusinessUpdateHandlerV2 (Some dto) s =
           (Timeout, ((fst s)\<lparr>model := snd (resubmit repo_update n dto (model (fst s)))\<rparr>,
                      snd s @ replicate n BusinessUpdateHandlerV2))"
    by simp
qed

text \<open>
  With the double \<open>upserting\<close>, a successor linked behind the handler and fuel 2: no
  return, the stored name overwritten, and the handler entered twice, its successor not
  at all.
\<close>

theorem v2_handle_never_returns_witness:
  "fst (handle (Suc (Suc 0)) (process upserting) [BusinessUpdateHandlerV2 \<mapsto> AuditUpdateHandler]
          BusinessUpdateHandlerV2 (Some renamed) (world app0, [])) = Timeout \<and>
   model (fst (snd (handle (Suc (Suc 0)) (process upserting)
          [BusinessUpdateHandlerV2 \<mapsto> AuditUpdateHandler]
          BusinessUpdateHandlerV2 (Some renamed) (world app0, [])))) ''1'' =
     Some (catalog_a\<lparr>ent_name := Some ''Renamed''\<rparr>) \<and>
   snd (snd (handle (Suc (Suc 0)) (process upserting) [BusinessUpdateHandlerV2 \<mapsto> AuditUpdateHandler]
          BusinessUpdateHandlerV2 (Some renamed) (world app0, []))) =
     [BusinessUpdateHandlerV2, BusinessUpdateHandlerV2]"
proof -
  have h: "\<forall>i d m. \<exists>r m'. upserting i d m = (Ok (Some r), m')"
    by (simp add: upserting_def Let_def)
  have r: "snd (resubmit upserting (Suc (Suc 0)) renamed stored) ''1'' =
      Some (catalog_a\<lparr>ent_name := Some ''Renamed''\<rparr>)"
    by (simp add: upserting_def toEntity_def toDomain_def toDto_def renamed_def catalog_a_def
        Let_def)
  from v2_handle_never_returns [OF h, where n = "Suc (Suc 0)"
      and nx = "[BusinessUpdateHandlerV2 \<mapsto> AuditUpdateHandler]" and dto = renamed
      and s = "(world app0, [])"]
  have e: "handle (Suc (Suc 0)) (process upserting) [BusinessUpdateHandlerV2 \<mapsto> AuditUpdateHandler]
          BusinessUpdateHandlerV2 (Some renamed) (world app0, []) =
        (Timeout, ((world app0)\<lparr>model := snd (resubmit upserting (Suc (Suc 0)) renamed
              (model (world app0)))\<rparr>,
            [BusinessUpdateHandlerV2, BusinessUpdateHandlerV2]))"
    by (simp del: handle.simps resubmit.simps)
  have m: "model (world app0) = stored" by (simp add: app0_def)
  show ?thesis
    unfolding e m using r by simp
qed

text \<open>
  C10. For every context and every state, \<open>process\<close> of the audit handler for create and
  of the message handler for update returns without raising: each only appends its line
  to the console and leaves the collection alone, so neither can halt a chain.
\<close>

theorem side_effect_stages_never_raise:
  "process repo_update self AuditCreateHandler request s =
     (Ok (), ((fst s)\<lparr>console := console (fst s) @ [(''Audit log:'', request)]\<rparr>, snd s)) \<and>
   process repo_update self MessageUpdateHandler request s =
     (Ok (), ((fst s)\<lparr>console := console (fst s) @ [(''Message published:'', request)]\<rparr>, snd s))"
  by (simp add: process_def in_world_def AuditCreateHandler_process_def
      MessageUpdateHandler_process_def)

end
